theory Spec2Isabelle
  imports Complex_Main "HOL-Library.Char_ord" "HOL-Library.List_Lexorder"
begin

section \<open>Python values\<close>

text \<open>
  The exceptions that the modelled functions can raise. A function that may raise
  returns \<open>py_error + 'a\<close>, with \<open>Inl\<close> for the exception.
\<close>

datatype py_error =
  ZeroDivisionError | KeyError | ValueError | OverflowError | JSONDecodeError | LLMError

definition and_then :: "py_error + 'a \<Rightarrow> ('a \<Rightarrow> py_error + 'b) \<Rightarrow> py_error + 'b" where
  "and_then r f = (case r of Inl e \<Rightarrow> Inl e | Inr v \<Rightarrow> f v)"

text \<open>
  A Python number is an \<open>int\<close> or a \<open>float\<close>. Floats are idealised as exact
  rationals: no rounding error, no overflow, no NaN. What is kept of Python is the
  distinction between the two types (true division always gives a float, \<open>round(n, 2)\<close>
  of an int stays an int) and the \<open>ZeroDivisionError\<close> of a division by zero.
\<close>

datatype pynum = PInt int | PFloat rat

fun val :: "pynum \<Rightarrow> rat" where
  "val (PInt i) = of_int i"
| "val (PFloat x) = x"

fun py_sub :: "pynum \<Rightarrow> pynum \<Rightarrow> pynum" where
  "py_sub (PInt a) (PInt b) = PInt (a - b)"
| "py_sub a b = PFloat (val a - val b)"

fun py_mul :: "pynum \<Rightarrow> pynum \<Rightarrow> pynum" where
  "py_mul (PInt a) (PInt b) = PInt (a * b)"
| "py_mul a b = PFloat (val a * val b)"

fun py_abs :: "pynum \<Rightarrow> pynum" where
  "py_abs (PInt a) = PInt \<bar>a\<bar>"
| "py_abs (PFloat x) = PFloat \<bar>x\<bar>"

definition py_truediv :: "pynum \<Rightarrow> pynum \<Rightarrow> py_error + pynum" where
  "py_truediv a b =
     (if val b = 0 then Inl ZeroDivisionError else Inr (PFloat (val a / val b)))"

text \<open>\<open>round(x, 2)\<close>: to the nearest multiple of 1/100, a tie going to the even one.\<close>

definition round_half_even :: "rat \<Rightarrow> int" where
  "round_half_even x =
     (let f = \<lfloor>x\<rfloor>; d = x - of_int f
      in if d < 1 / 2 then f else if 1 / 2 < d then f + 1 else if even f then f else f + 1)"

definition round2 :: "rat \<Rightarrow> rat" where
  "round2 x = of_int (round_half_even (x * 100)) / 100"

fun py_round2 :: "pynum \<Rightarrow> pynum" where
  "py_round2 (PInt i) = PInt i"
| "py_round2 (PFloat x) = PFloat (round2 x)"

section \<open>main.py: the metrics, alerts and report pipeline\<close>

text \<open>
  The dictionaries of \<open>BusinessState\<close> are records with the keys the nodes read and
  write. A field that clashes with a field of another record carries a suffix
  (\<open>_s\<close> for \<open>business_summary\<close>, \<open>_k\<close> for \<open>key_metrics\<close>, \<open>_r\<close> for the
  report).
\<close>

record daily_record =
  revenue :: pynum
  cost :: pynum
  customers :: int
  marketing_cost :: pynum

record metrics_dict =
  today_profit :: pynum
  yesterday_profit :: pynum
  today_cac :: pynum
  yesterday_cac :: pynum
  revenue_change :: pynum
  cost_change :: pynum
  profit_change :: pynum
  cac_change :: pynum
  customer_growth :: pynum
  today_roi :: pynum
  yesterday_roi :: pynum

record business_summary_dict =
  date :: string
  profit_loss_status :: string
  total_profit :: pynum
  revenue_s :: pynum
  cost_s :: pynum
  customers_s :: int

record key_metrics_dict =
  cac_today :: pynum
  roi_today :: pynum
  revenue_change_k :: string
  cost_change_k :: string
  profit_change_k :: string
  customer_growth_k :: string

record report =
  business_summary :: business_summary_dict
  key_metrics :: key_metrics_dict
  alerts_r :: "string list"
  recommendations_r :: "string list"
  action_priority :: string

record business_state =
  today_data :: daily_record
  yesterday_data :: daily_record
  metrics :: metrics_dict
  profit_status :: string
  alerts :: "string list"
  recommendations :: "string list"
  final_report :: report

subsection \<open>input_node\<close>

definition sample_today :: daily_record where
  "sample_today =
     \<lparr>revenue = PInt 12000, cost = PInt 8000, customers = 150, marketing_cost = PInt 2000\<rparr>"

definition sample_yesterday :: daily_record where
  "sample_yesterday =
     \<lparr>revenue = PInt 10000, cost = PInt 7500, customers = 120, marketing_cost = PInt 1800\<rparr>"

definition input_node :: "business_state \<Rightarrow> business_state" where
  "input_node state = state\<lparr>today_data := sample_today, yesterday_data := sample_yesterday\<rparr>"

subsection \<open>processing_node\<close>

text \<open>
  The statements of \<open>processing_node\<close> in their order. Each unguarded division is a
  \<open>py_truediv\<close> whose error ends the function, as the exception does.
\<close>

definition pct :: "pynum \<Rightarrow> pynum \<Rightarrow> pynum \<Rightarrow> py_error + pynum" where
  \<comment> \<open>\<open>((a - b) / c) * 100\<close>\<close>
  "pct a b c = and_then (py_truediv (py_sub a b) c) (\<lambda>q. Inr (py_mul q (PInt 100)))"

definition processing_node :: "business_state \<Rightarrow> py_error + business_state" where
  "processing_node state =
    (let today = today_data state;
         yesterday = yesterday_data state;
         today_profit' = py_sub (revenue today) (cost today);
         yesterday_profit' = py_sub (revenue yesterday) (cost yesterday)
     in
     and_then (if 0 < customers today
               then py_truediv (marketing_cost today) (PInt (customers today))
               else Inr (PInt 0)) (\<lambda>today_cac'.
     and_then (if 0 < customers yesterday
               then py_truediv (marketing_cost yesterday) (PInt (customers yesterday))
               else Inr (PInt 0)) (\<lambda>yesterday_cac'.
     and_then (pct (revenue today) (revenue yesterday) (revenue yesterday)) (\<lambda>revenue_change'.
     and_then (pct (cost today) (cost yesterday) (cost yesterday)) (\<lambda>cost_change'.
     and_then (if val yesterday_profit' \<noteq> 0
               then pct today_profit' yesterday_profit' (py_abs yesterday_profit')
               else Inr (PInt 0)) (\<lambda>profit_change'.
     and_then (if 0 < val yesterday_cac'
               then pct today_cac' yesterday_cac' yesterday_cac'
               else Inr (PInt 0)) (\<lambda>cac_change'.
     and_then (pct (PInt (customers today)) (PInt (customers yesterday))
                 (PInt (customers yesterday))) (\<lambda>customer_growth'.
     and_then (if 0 < val (cost today)
               then and_then (py_truediv today_profit' (cost today))
                      (\<lambda>q. Inr (py_mul q (PInt 100)))
               else Inr (PInt 0)) (\<lambda>today_roi'.
     and_then (if 0 < val (cost yesterday)
               then and_then (py_truediv yesterday_profit' (cost yesterday))
                      (\<lambda>q. Inr (py_mul q (PInt 100)))
               else Inr (PInt 0)) (\<lambda>yesterday_roi'.
     Inr (state\<lparr>
       metrics := \<lparr>
         today_profit = today_profit',
         yesterday_profit = yesterday_profit',
         today_cac = py_round2 today_cac',
         yesterday_cac = py_round2 yesterday_cac',
         revenue_change = py_round2 revenue_change',
         cost_change = py_round2 cost_change',
         profit_change = py_round2 profit_change',
         cac_change = py_round2 cac_change',
         customer_growth = py_round2 customer_growth',
         today_roi = py_round2 today_roi',
         yesterday_roi = py_round2 yesterday_roi'\<rparr>,
       profit_status := (if 0 < val today_profit' then ''positive'' else ''negative'')
     \<rparr>)))))))))))"

subsection \<open>analysis_node\<close>

text \<open>The two emoji of the alert texts, as their UTF-8 bytes.\<close>

definition siren :: string where
  "siren = [CHR 0xF0, CHR 0x9F, CHR 0x9A, CHR 0xA8]"

definition warning_sign :: string where
  "warning_sign = [CHR 0xE2, CHR 0x9A, CHR 0xA0, CHR 0xEF, CHR 0xB8, CHR 0x8F]"

definition alert_critical :: string where
  "alert_critical = siren @ '' CRITICAL: You have losses today!''"

definition alert_cac_growth :: string where
  "alert_cac_growth =
     warning_sign @ '' WARNING: Customer acquisition cost increased by more than 20%''"

definition alert_cac_level :: string where
  "alert_cac_level =
     warning_sign @ '' ALERT: Customer acquisition cost is higher than optimal''"

definition alert_cost_growth :: string where
  "alert_cost_growth = warning_sign @ '' CAUTION: Costs are growing faster than revenue''"

definition alert_revenue_drop :: string where
  "alert_revenue_drop = siren @ '' URGENT: Revenue decreased by more than 10%''"

definition alert_low_roi :: string where
  "alert_low_roi = warning_sign @ '' LOW ROI: Return on investment is less than 10%''"

definition analysis_node :: "business_state \<Rightarrow> business_state" where
  "analysis_node state =
    (let m = metrics state;
         alerts0 = [];
         alerts1 = (if val (today_profit m) \<le> 0 then alerts0 @ [alert_critical] else alerts0);
         alerts2 = (if 20 < val (cac_change m) then alerts1 @ [alert_cac_growth]
                    else if 50 < val (today_cac m) then alerts1 @ [alert_cac_level]
                    else alerts1);
         alerts3 = (if val (revenue_change m) < val (cost_change m) \<and> 0 < val (revenue_change m)
                    then alerts2 @ [alert_cost_growth] else alerts2);
         alerts4 = (if val (revenue_change m) < - 10
                    then alerts3 @ [alert_revenue_drop] else alerts3);
         alerts5 = (if val (today_roi m) < 10 then alerts4 @ [alert_low_roi] else alerts4)
     in state\<lparr>alerts := alerts5\<rparr>)"

subsection \<open>output_node\<close>

text \<open>
  \<open>str_num\<close> stands for the string form that an f-string gives a number
  (\<open>f"{x}"\<close>); \<open>output_node\<close> takes it as a parameter.
\<close>

definition output_node :: "(pynum \<Rightarrow> string) \<Rightarrow> business_state \<Rightarrow> business_state" where
  "output_node str_num state =
    (let final_report' = \<lparr>
           business_summary = \<lparr>
             date = ''today'',
             profit_loss_status = profit_status state,
             total_profit = today_profit (metrics state),
             revenue_s = revenue (today_data state),
             cost_s = cost (today_data state),
             customers_s = customers (today_data state)\<rparr>,
           key_metrics = \<lparr>
             cac_today = today_cac (metrics state),
             roi_today = today_roi (metrics state),
             revenue_change_k = str_num (revenue_change (metrics state)) @ ''%'',
             cost_change_k = str_num (cost_change (metrics state)) @ ''%'',
             profit_change_k = str_num (profit_change (metrics state)) @ ''%'',
             customer_growth_k = str_num (customer_growth (metrics state)) @ ''%''\<rparr>,
           alerts_r = alerts state,
           recommendations_r = recommendations state,
           action_priority =
             (if val (today_profit (metrics state)) \<le> 0 then ''high''
              else if 0 < length (alerts state) then ''medium''
              else ''low'')\<rparr>
     in state\<lparr>final_report := final_report'\<rparr>)"

subsection \<open>The initial state\<close>

text \<open>
  The initial state of \<open>run_business_analysis\<close>. Its dictionaries are empty and are
  written by \<open>input_node\<close>, \<open>processing_node\<close> and \<open>output_node\<close> before a node reads
  them; the records hold zeros and empty strings in their place.
\<close>

definition initial_state :: business_state where
  "initial_state = \<lparr>
     today_data = \<lparr>revenue = PInt 0, cost = PInt 0, customers = 0, marketing_cost = PInt 0\<rparr>,
     yesterday_data = \<lparr>revenue = PInt 0, cost = PInt 0, customers = 0, marketing_cost = PInt 0\<rparr>,
     metrics = \<lparr>today_profit = PInt 0, yesterday_profit = PInt 0, today_cac = PInt 0,
       yesterday_cac = PInt 0, revenue_change = PInt 0, cost_change = PInt 0,
       profit_change = PInt 0, cac_change = PInt 0, customer_growth = PInt 0,
       today_roi = PInt 0, yesterday_roi = PInt 0\<rparr>,
     profit_status = '''',
     alerts = [],
     recommendations = [],
     final_report = \<lparr>
       business_summary = \<lparr>date = '''', profit_loss_status = '''', total_profit = PInt 0,
         revenue_s = PInt 0, cost_s = PInt 0, customers_s = 0\<rparr>,
       key_metrics = \<lparr>cac_today = PInt 0, roi_today = PInt 0, revenue_change_k = '''',
         cost_change_k = '''', profit_change_k = '''', customer_growth_k = ''''\<rparr>,
       alerts_r = [], recommendations_r = [], action_priority = ''''\<rparr>\<rparr>"

section \<open>business-agent.py: the conversation controller\<close>

text \<open>
  Strings are sequences of bytes, a character outside ASCII being its UTF-8 bytes.
  \<open>strip\<close> and \<open>lower\<close> act on the ASCII white space and the ASCII letters and leave
  every other byte as it is.
\<close>

subsection \<open>Strings and numbers as text\<close>

definition is_space :: "char \<Rightarrow> bool" where
  "is_space c \<longleftrightarrow>
     c \<in> set [CHR 0x09, CHR 0x0A, CHR 0x0B, CHR 0x0C, CHR 0x0D, CHR 0x1C, CHR 0x1D, CHR 0x1E,
              CHR 0x1F, CHR 0x20]"

definition strip :: "string \<Rightarrow> string" where
  "strip s = rev (dropWhile is_space (rev (dropWhile is_space s)))"

definition lower_char :: "char \<Rightarrow> char" where
  "lower_char c =
     (if CHR ''A'' \<le> c \<and> c \<le> CHR ''Z'' then char_of (of_char c + (32 :: nat)) else c)"

definition lower :: "string \<Rightarrow> string" where
  "lower s = map lower_char s"

definition digit_char :: "nat \<Rightarrow> char" where
  "digit_char d = char_of (48 + d)"

fun str_nat :: "nat \<Rightarrow> string" where
  "str_nat n = (if n < 10 then [digit_char n] else str_nat (n div 10) @ [digit_char (n mod 10)])"

declare str_nat.simps [simp del]

definition str_int :: "int \<Rightarrow> string" where
  \<comment> \<open>\<open>f"{n}"\<close>\<close>
  "str_int n = (if n < 0 then ''-'' @ str_nat (nat (- n)) else str_nat (nat n))"

definition zero_pad :: "nat \<Rightarrow> nat \<Rightarrow> string" where
  "zero_pad w n = replicate (w - length (str_nat n)) (CHR ''0'') @ str_nat n"

fun group_thousands :: "nat \<Rightarrow> string" where
  "group_thousands n =
     (if n < 1000 then str_nat n
      else group_thousands (n div 1000) @ '','' @ zero_pad 3 (n mod 1000))"

declare group_thousands.simps [simp del]

definition fmt_commas :: "int \<Rightarrow> string" where
  \<comment> \<open>\<open>f"{n:,}"\<close>\<close>
  "fmt_commas n =
     (if n < 0 then ''-'' @ group_thousands (nat (- n)) else group_thousands (nat n))"

definition fmt_1f :: "rat \<Rightarrow> string" where
  \<comment> \<open>\<open>f"{x:.1f}"\<close>\<close>
  "fmt_1f x =
     (let r = nat \<bar>round_half_even (x * 10)\<bar>
      in (if x < 0 then ''-'' else '''') @ str_nat (r div 10) @ ''.'' @ str_nat (r mod 10))"

subsection \<open>Dates: strptime, timedelta(days=1), strftime with the format %Y-%m-%d\<close>

text \<open>
  A date is year, month, day. \<open>strptime\<close> reads four digits, a month of one or two
  digits and a day of one or two digits (or a space and a digit), separated by
  \<open>-\<close>, and raises \<open>ValueError\<close> for any other text and for a day that the month
  does not have. \<open>strftime\<close> pads the year to four digits and month and day to two.
\<close>

type_synonym ymd = "nat \<times> nat \<times> nat"

definition is_digit :: "char \<Rightarrow> bool" where
  "is_digit c \<longleftrightarrow> CHR ''0'' \<le> c \<and> c \<le> CHR ''9''"

definition digit_val :: "char \<Rightarrow> nat" where
  "digit_val c = of_char c - 48"

definition is_leap :: "nat \<Rightarrow> bool" where
  "is_leap y \<longleftrightarrow> y mod 4 = 0 \<and> (y mod 100 \<noteq> 0 \<or> y mod 400 = 0)"

definition days_in_month :: "nat \<Rightarrow> nat \<Rightarrow> nat" where
  "days_in_month y m =
     (if m = 2 then (if is_leap y then 29 else 28)
      else if m \<in> set [4, 6, 9, 11] then 30 else 31)"

fun take_month :: "string \<Rightarrow> (nat \<times> string) option" where
  \<comment> \<open>\<open>1[0-2]|0[1-9]|[1-9]\<close>\<close>
  "take_month (a # b # rest) =
     (if a = CHR ''1'' \<and> CHR ''0'' \<le> b \<and> b \<le> CHR ''2'' then Some (10 + digit_val b, rest)
      else if a = CHR ''0'' \<and> CHR ''1'' \<le> b \<and> b \<le> CHR ''9'' then Some (digit_val b, rest)
      else if CHR ''1'' \<le> a \<and> a \<le> CHR ''9'' then Some (digit_val a, b # rest)
      else None)"
| "take_month [a] = (if CHR ''1'' \<le> a \<and> a \<le> CHR ''9'' then Some (digit_val a, []) else None)"
| "take_month [] = None"

fun take_day :: "string \<Rightarrow> (nat \<times> string) option" where
  \<comment> \<open>\<open>3[01]|[12]\d|0[1-9]|[1-9]| [1-9]\<close>\<close>
  "take_day (a # b # rest) =
     (if a = CHR ''3'' \<and> CHR ''0'' \<le> b \<and> b \<le> CHR ''1'' then Some (30 + digit_val b, rest)
      else if CHR ''1'' \<le> a \<and> a \<le> CHR ''2'' \<and> is_digit b
        then Some (10 * digit_val a + digit_val b, rest)
      else if a = CHR ''0'' \<and> CHR ''1'' \<le> b \<and> b \<le> CHR ''9'' then Some (digit_val b, rest)
      else if CHR ''1'' \<le> a \<and> a \<le> CHR ''9'' then Some (digit_val a, b # rest)
      else if a = CHR '' '' \<and> CHR ''1'' \<le> b \<and> b \<le> CHR ''9'' then Some (digit_val b, rest)
      else None)"
| "take_day [a] = (if CHR ''1'' \<le> a \<and> a \<le> CHR ''9'' then Some (digit_val a, []) else None)"
| "take_day [] = None"

definition strptime :: "string \<Rightarrow> py_error + ymd" where
  "strptime s =
     (case s of
        y1 # y2 # y3 # y4 # sep1 # rest \<Rightarrow>
          if is_digit y1 \<and> is_digit y2 \<and> is_digit y3 \<and> is_digit y4 \<and> sep1 = CHR ''-''
          then (case take_month rest of
                  Some (m, sep2 # rest') \<Rightarrow>
                    if sep2 = CHR ''-''
                    then (case take_day rest' of
                            Some (d, []) \<Rightarrow>
                              (let y = 1000 * digit_val y1 + 100 * digit_val y2
                                       + 10 * digit_val y3 + digit_val y4
                               in if 1 \<le> y \<and> d \<le> days_in_month y m then Inr (y, m, d)
                                  else Inl ValueError)
                          | _ \<Rightarrow> Inl ValueError)
                    else Inl ValueError
                | _ \<Rightarrow> Inl ValueError)
          else Inl ValueError
      | _ \<Rightarrow> Inl ValueError)"

fun minus_one_day :: "ymd \<Rightarrow> py_error + ymd" where
  \<comment> \<open>\<open>date_obj - timedelta(days=1)\<close>\<close>
  "minus_one_day (y, m, d) =
     (if 1 < d then Inr (y, m, d - 1)
      else if 1 < m then Inr (y, m - 1, days_in_month y (m - 1))
      else if 1 < y then Inr (y - 1, 12, 31)
      else Inl OverflowError)"

fun strftime :: "ymd \<Rightarrow> string" where
  "strftime (y, m, d) = zero_pad 4 y @ ''-'' @ zero_pad 2 m @ ''-'' @ zero_pad 2 d"

definition previous_day :: "string \<Rightarrow> py_error + string" where
  \<comment> \<open>\<open>(datetime.strptime(s, "%Y-%m-%d") - timedelta(days=1)).strftime("%Y-%m-%d")\<close>\<close>
  "previous_day s =
     and_then (strptime s) (\<lambda>date_obj.
     and_then (minus_one_day date_obj) (\<lambda>prev_obj.
     Inr (strftime prev_obj)))"

subsection \<open>The data and the state\<close>

record day_data =
  revenue_d :: int
  cost_d :: int
  customers_d :: int

definition BUSINESS_DATA :: "(string \<times> day_data) list" where
  "BUSINESS_DATA = [
     (''2024-01-01'', \<lparr>revenue_d = 8000, cost_d = 5000, customers_d = 80\<rparr>),
     (''2024-01-02'', \<lparr>revenue_d = 10000, cost_d = 6000, customers_d = 100\<rparr>),
     (''2024-01-03'', \<lparr>revenue_d = 7500, cost_d = 4800, customers_d = 75\<rparr>),
     (''2024-01-04'', \<lparr>revenue_d = 11000, cost_d = 7000, customers_d = 110\<rparr>),
     (''2024-01-05'', \<lparr>revenue_d = 9500, cost_d = 6200, customers_d = 95\<rparr>),
     (''2024-01-06'', \<lparr>revenue_d = 5000, cost_d = 7000, customers_d = 50\<rparr>),
     (''2024-01-07'', \<lparr>revenue_d = 12000, cost_d = 7500, customers_d = 120\<rparr>),
     (''2024-01-08'', \<lparr>revenue_d = 9000, cost_d = 5800, customers_d = 90\<rparr>),
     (''2024-01-09'', \<lparr>revenue_d = 8500, cost_d = 5500, customers_d = 85\<rparr>),
     (''2024-01-10'', \<lparr>revenue_d = 10500, cost_d = 6500, customers_d = 105\<rparr>)]"

definition has_key :: "('k \<times> 'v) list \<Rightarrow> 'k \<Rightarrow> bool" where
  \<comment> \<open>\<open>k in d\<close>\<close>
  "has_key d k \<longleftrightarrow> k \<in> set (map fst d)"

definition getitem :: "('k \<times> 'v) list \<Rightarrow> 'k \<Rightarrow> py_error + 'v" where
  \<comment> \<open>\<open>d[k]\<close>\<close>
  "getitem d k = (case map_of d k of None \<Rightarrow> Inl KeyError | Some v \<Rightarrow> Inr v)"

datatype json =
  JNull | JBool bool | JNum pynum | JStr string | JArr "json list" | JObj "(string \<times> json) list"

text \<open>
  The state of the chat graph. \<open>messages\<close> holds the contents of the messages.
\<close>

record state =
  messages :: "string list"
  user_input :: string
  stage :: string
  selected_date :: string
  analysis_result :: json

text \<open>
  A node returns a dictionary with the keys it updates, or the state itself. A key
  that the dictionary does not have is \<open>None\<close> here.
\<close>

record update =
  messages_u :: "string list"
  stage_u :: "string option"
  selected_date_u :: "string option"
  analysis_result_u :: "json option"

datatype node_output = Update update | Whole state

text \<open>
  How the graph merges a node's output into the state: \<open>messages\<close> is declared with
  the reducer \<open>add_messages\<close>, which appends the new messages; every other key is
  overwritten. A node that returns the state leaves it as it is (\<open>add_messages\<close>
  replaces a message whose id the list already has).
\<close>

fun apply_output :: "state \<Rightarrow> node_output \<Rightarrow> state" where
  "apply_output s (Update u) = s\<lparr>
     messages := messages s @ messages_u u,
     stage := (case stage_u u of None \<Rightarrow> stage s | Some x \<Rightarrow> x),
     selected_date := (case selected_date_u u of None \<Rightarrow> selected_date s | Some x \<Rightarrow> x),
     analysis_result := (case analysis_result_u u of None \<Rightarrow> analysis_result s | Some x \<Rightarrow> x)\<rparr>"
| "apply_output s (Whole s') = s'"

definition initial_chat_state :: state where
  "initial_chat_state = \<lparr>messages = [], user_input = '''', stage = ''greeting'',
     selected_date = '''', analysis_result = JObj []\<rparr>"

subsection \<open>get_data_table\<close>

definition table_header :: string where
  "table_header =
     [CHR 0xF0, CHR 0x9F, CHR 0x93, CHR 0x8A] @ '' **Available Business Data:**'' @ [CHR 0x0A]
     @ ''```'' @ [CHR 0x0A] @ ''Date        | Revenue ($) | Cost ($) | Customers'' @ [CHR 0x0A]
     @ ''------------|------------|----------|----------''"

definition table_row :: "string \<Rightarrow> string \<times> day_data \<Rightarrow> string" where
  "table_row response item =
     (case item of (date', data) \<Rightarrow>
        response @ [CHR 0x0A] @ date' @ '' | $'' @ fmt_commas (revenue_d data) @ ''      | $''
        @ fmt_commas (cost_d data) @ ''    | '' @ str_int (customers_d data))"

definition get_data_table :: string where
  "get_data_table =
     foldl table_row table_header (sort_key fst BUSINESS_DATA) @ [CHR 0x0A] @ ''```''"

subsection \<open>process_input\<close>

definition affirmative :: "string list" where
  "affirmative = [''yes'', ''y'', ''yeah'', ''sure'']"

definition negative :: "string list" where
  "negative = [''no'', ''n'', ''nope'']"

definition msg_greeting :: string where
  "msg_greeting =
     ''Hello! I'm your Business Analytics Assistant. ''
     @ [CHR 0xF0, CHR 0x9F, CHR 0xA4, CHR 0x96, CHR 0x0A] @ ''        '' @ [CHR 0x0A]
     @ ''To analyze your sales and cost data, please select a date from the available data.''
     @ [CHR 0x0A, CHR 0x0A]
     @ get_data_table
     @ [CHR 0x0A, CHR 0x0A, CHR 0xF0, CHR 0x9F, CHR 0x92, CHR 0xA1]
       @ '' Please enter the date you'd like to analyze in YYYY-MM-DD format (e.g., 2024-01-05)''"

definition msg_no_previous_day :: string where
  "msg_no_previous_day =
     [CHR 0xE2, CHR 0x9A, CHR 0xA0, CHR 0xEF, CHR 0xB8, CHR 0x8F]
     @ '' Sorry, no data available for the previous day. Please select a date that has previous day data for comparison.''"

definition msg_date_selected :: "string \<Rightarrow> string" where
  "msg_date_selected d =
     [CHR 0xE2, CHR 0x9C, CHR 0x85] @ '' Date '' @ d
     @ '' selected.'' @ [CHR 0x0A, CHR 0x0A]
       @ ''Do you want me to analyze the business data for this date? (yes/no)''"

definition msg_invalid_date :: string where
  "msg_invalid_date =
     [CHR 0xE2, CHR 0x9D, CHR 0x8C]
     @ '' The entered date is not in the available data. Please select one of the dates from the table.''"

definition msg_starting :: string where
  "msg_starting = [CHR 0xF0, CHR 0x9F, CHR 0x94, CHR 0x8D] @ '' Starting business data analysis...''"

definition msg_new_date :: string where
  "msg_new_date =
     get_data_table
     @ [CHR 0x0A, CHR 0x0A, CHR 0xF0, CHR 0x9F, CHR 0x92, CHR 0xA1]
       @ '' Please enter a new date you'd like to analyze:''"

definition msg_confirm_reprompt :: string where
  "msg_confirm_reprompt =
     ''Please answer with 'yes' or 'no'. Do you want me to analyze the business data?''"

definition msg_another_date :: string where
  "msg_another_date =
     get_data_table
     @ [CHR 0x0A, CHR 0x0A, CHR 0xF0, CHR 0x9F, CHR 0x92, CHR 0xA1]
       @ '' Please enter the new date you'd like to analyze:''"

definition msg_goodbye :: string where
  "msg_goodbye =
     ''Thank you for using Business Analytics Chat! ''
     @ [CHR 0xF0, CHR 0x9F, CHR 0x91, CHR 0x8B]"

definition msg_complete_reprompt :: string where
  "msg_complete_reprompt =
     ''Please answer with 'yes' or 'no'. Would you like to analyze another date?''"

definition process_input :: "state \<Rightarrow> py_error + node_output" where
  "process_input state =
    (let user_input' = strip (user_input state);
         stage' = stage state
     in
     if stage' = ''greeting'' then
       Inr (Update \<lparr>messages_u = [msg_greeting], stage_u = Some ''date_selection'',
              selected_date_u = None, analysis_result_u = None\<rparr>)
     else if stage' = ''date_selection'' then
       (if has_key BUSINESS_DATA user_input' then
          and_then (previous_day user_input') (\<lambda>prev_date.
          if \<not> has_key BUSINESS_DATA prev_date then
            Inr (Update \<lparr>messages_u = [msg_no_previous_day], stage_u = Some ''date_selection'',
                   selected_date_u = None, analysis_result_u = None\<rparr>)
          else
            Inr (Update \<lparr>messages_u = [msg_date_selected user_input'],
                   stage_u = Some ''confirm_analysis'',
                   selected_date_u = Some user_input', analysis_result_u = None\<rparr>))
        else
          Inr (Update \<lparr>messages_u = [msg_invalid_date], stage_u = Some ''date_selection'',
                 selected_date_u = None, analysis_result_u = None\<rparr>))
     else if stage' = ''confirm_analysis'' then
       (if lower user_input' \<in> set affirmative then
          Inr (Update \<lparr>messages_u = [msg_starting], stage_u = Some ''analysis'',
                 selected_date_u = None, analysis_result_u = None\<rparr>)
        else if lower user_input' \<in> set negative then
          Inr (Update \<lparr>messages_u = [msg_new_date], stage_u = Some ''date_selection'',
                 selected_date_u = Some '''', analysis_result_u = None\<rparr>)
        else
          Inr (Update \<lparr>messages_u = [msg_confirm_reprompt], stage_u = Some ''confirm_analysis'',
                 selected_date_u = None, analysis_result_u = None\<rparr>))
     else if stage' = ''complete'' then
       (if lower user_input' \<in> set affirmative then
          Inr (Update \<lparr>messages_u = [msg_another_date], stage_u = Some ''date_selection'',
                 selected_date_u = Some '''', analysis_result_u = None\<rparr>)
        else if lower user_input' \<in> set negative then
          Inr (Update \<lparr>messages_u = [msg_goodbye], stage_u = Some ''end'',
                 selected_date_u = None, analysis_result_u = None\<rparr>)
        else
          Inr (Update \<lparr>messages_u = [msg_complete_reprompt], stage_u = Some ''complete'',
                 selected_date_u = None, analysis_result_u = None\<rparr>))
     else Inr (Whole state))"

subsection \<open>The language model\<close>

text \<open>
  A call \<open>llm.invoke\<close> raises or returns a message with a content. The replies of the
  calls that a function makes are parameters of its model; the prompts are not
  modelled. \<open>json.loads\<close> and \<open>json.dumps\<close> are parameters as well.
\<close>

datatype llm_reply = Raises | Content string

subsection \<open>analyze_business\<close>

definition parse_fallback :: "day_data \<Rightarrow> json" where
  \<comment> \<open>the handler of \<open>json.JSONDecodeError\<close>\<close>
  "parse_fallback current =
     (let current_profit = revenue_d current - cost_d current
      in JObj [
           (''profit_loss_status'',
              JStr (if 0 < current_profit then ''positive'' else ''negative'')),
           (''current_profit'', JNum (PInt current_profit)),
           (''alerts'', JArr [JStr ''Unable to parse LLM JSON response'']),
           (''recommendations'', JArr [JStr ''Review analysis manually'']),
           (''key_metrics'', JObj [(''error'', JStr ''JSON parsing failed'')])])"

definition llm_fallback :: "string \<Rightarrow> day_data \<Rightarrow> day_data \<Rightarrow> py_error + string \<times> json" where
  \<comment> \<open>the handler of \<open>Exception\<close>: the content of the analysis and the JSON output\<close>
  "llm_fallback selected_date' current previous =
     (let current_profit = revenue_d current - cost_d current
      in
      and_then (pct (PInt (revenue_d current)) (PInt (revenue_d previous))
                  (PInt (revenue_d previous))) (\<lambda>revenue_change'.
      and_then (pct (PInt (cost_d current)) (PInt (cost_d previous))
                  (PInt (cost_d previous))) (\<lambda>cost_change'.
      Inr ([CHR 0xF0, CHR 0x9F, CHR 0x93, CHR 0x8A] @ '' **Business Analysis for '' @ selected_date'
           @ ''** (Fallback Mode)'' @ [CHR 0x0A] @ ''            ''
             @ [CHR 0x0A, CHR 0xF0, CHR 0x9F, CHR 0x92, CHR 0xB0] @ '' **Financial Summary:**''
             @ [CHR 0x0A] @ ''- Current Profit: $''
           @ fmt_commas current_profit
           @ [CHR 0x0A] @ ''- Revenue Change: '' @ fmt_1f (val revenue_change')
           @ ''%'' @ [CHR 0x0A] @ ''- Cost Change: '' @ fmt_1f (val cost_change')
           @ ''%'' @ [CHR 0x0A, CHR 0x0A, CHR 0xF0, CHR 0x9F, CHR 0x93, CHR 0x88]
             @ '' **Key Insights:**'' @ [CHR 0x0A] @ ''- ''
           @ (if 0 < current_profit then ''Profitable day'' else ''Loss incurred'')
           @ [CHR 0x0A] @ ''- Revenue ''
           @ (if 0 < val revenue_change' then ''increased'' else ''decreased'')
           @ '' compared to previous day'' @ [CHR 0x0A]
             @ ''- Cost efficiency needs attention if costs grew faster than revenue''
             @ [CHR 0x0A, CHR 0x0A, CHR 0xE2, CHR 0x9A, CHR 0xA0, CHR 0xEF, CHR 0xB8, CHR 0x8F]
             @ '' **Note:** This is a basic analysis due to LLM connectivity issues.'',
           JObj [
             (''profit_loss_status'',
                JStr (if 0 < current_profit then ''positive'' else ''negative'')),
             (''current_profit'', JNum (PInt current_profit)),
             (''alerts'', JArr [JStr ''LLM unavailable - basic analysis provided'']),
             (''recommendations'',
                JArr [JStr ''Review detailed financials'', JStr ''Check operational efficiency'']),
             (''key_metrics'', JObj [
                (''revenue_change'', JStr (fmt_1f (val revenue_change') @ ''%'')),
                (''cost_change'', JStr (fmt_1f (val cost_change') @ ''%'')),
                (''profit'', JNum (PInt current_profit))])]))))"

definition analyze_business ::
  "llm_reply \<Rightarrow> llm_reply \<Rightarrow> (string \<Rightarrow> py_error + json) \<Rightarrow> (json \<Rightarrow> string) \<Rightarrow> state
     \<Rightarrow> py_error + node_output" where
  "analyze_business analysis_reply json_reply json_loads json_dumps state =
    (if stage state \<noteq> ''analysis'' then Inr (Whole state)
     else
       let selected_date' = selected_date state
       in
       and_then (previous_day selected_date') (\<lambda>prev_date.
       and_then (getitem BUSINESS_DATA selected_date') (\<lambda>current.
       and_then (getitem BUSINESS_DATA prev_date) (\<lambda>previous.
       and_then
         (case analysis_reply of
            Raises \<Rightarrow> llm_fallback selected_date' current previous
          | Content analysis_content \<Rightarrow>
              (case json_reply of
                 Raises \<Rightarrow> llm_fallback selected_date' current previous
               | Content json_content \<Rightarrow>
                   (case json_loads json_content of
                      Inr json_output \<Rightarrow> Inr (analysis_content, json_output)
                    | Inl e \<Rightarrow>
                        if e = JSONDecodeError
                        then Inr (analysis_content, parse_fallback current)
                        else llm_fallback selected_date' current previous)))
         (\<lambda>(analysis_content, json_output).
       Inr (Update \<lparr>
         messages_u = [analysis_content
           @ [CHR 0x0A, CHR 0x0A, CHR 0xF0, CHR 0x9F, CHR 0x93, CHR 0x8B]
             @ '' **JSON Output:**'' @ [CHR 0x0A] @ ''```json'' @ [CHR 0x0A]
           @ json_dumps json_output
           @ [CHR 0x0A] @ ''```'' @ [CHR 0x0A, CHR 0x0A]
             @ ''Would you like to analyze another date? (yes/no)''],
         stage_u = Some ''complete'',
         selected_date_u = None,
         analysis_result_u = Some json_output\<rparr>))))))"

subsection \<open>process_input_enhanced\<close>

text \<open>
  The node of the compiled graph. It takes the branches of \<open>process_input\<close>; in each
  it asks the language model for the text of the message and falls back to the text
  of \<open>process_input\<close> when the call raises.
\<close>

definition content_or :: "llm_reply \<Rightarrow> string \<Rightarrow> string" where
  "content_or reply fallback = (case reply of Content c \<Rightarrow> c | Raises \<Rightarrow> fallback)"

definition process_input_enhanced :: "llm_reply \<Rightarrow> state \<Rightarrow> py_error + node_output" where
  "process_input_enhanced reply state =
    (let user_input' = strip (user_input state);
         stage' = stage state
     in
     if stage' = ''greeting'' then
       Inr (Update \<lparr>messages_u = [content_or reply msg_greeting],
              stage_u = Some ''date_selection'',
              selected_date_u = None, analysis_result_u = None\<rparr>)
     else if stage' = ''date_selection'' then
       (if has_key BUSINESS_DATA user_input' then
          and_then (previous_day user_input') (\<lambda>prev_date.
          if \<not> has_key BUSINESS_DATA prev_date then
            Inr (Update \<lparr>messages_u = [content_or reply msg_no_previous_day],
                   stage_u = Some ''date_selection'',
                   selected_date_u = None, analysis_result_u = None\<rparr>)
          else
            Inr (Update \<lparr>messages_u = [content_or reply (msg_date_selected user_input')],
                   stage_u = Some ''confirm_analysis'',
                   selected_date_u = Some user_input', analysis_result_u = None\<rparr>))
        else
          Inr (Update \<lparr>messages_u = [content_or reply msg_invalid_date],
                 stage_u = Some ''date_selection'',
                 selected_date_u = None, analysis_result_u = None\<rparr>))
     else if stage' = ''confirm_analysis'' then
       (if lower user_input' \<in> set affirmative then
          Inr (Update \<lparr>messages_u = [content_or reply msg_starting],
                 stage_u = Some ''analysis'',
                 selected_date_u = None, analysis_result_u = None\<rparr>)
        else if lower user_input' \<in> set negative then
          Inr (Update \<lparr>messages_u = [content_or reply msg_new_date],
                 stage_u = Some ''date_selection'',
                 selected_date_u = Some '''', analysis_result_u = None\<rparr>)
        else
          Inr (Update \<lparr>messages_u = [content_or reply msg_confirm_reprompt],
                 stage_u = Some ''confirm_analysis'',
                 selected_date_u = None, analysis_result_u = None\<rparr>))
     else if stage' = ''complete'' then
       (if lower user_input' \<in> set affirmative then
          Inr (Update \<lparr>messages_u = [content_or reply msg_another_date],
                 stage_u = Some ''date_selection'',
                 selected_date_u = Some '''', analysis_result_u = None\<rparr>)
        else if lower user_input' \<in> set negative then
          Inr (Update \<lparr>messages_u = [content_or reply msg_goodbye],
                 stage_u = Some ''end'',
                 selected_date_u = None, analysis_result_u = None\<rparr>)
        else
          Inr (Update \<lparr>messages_u = [content_or reply msg_complete_reprompt],
                 stage_u = Some ''complete'',
                 selected_date_u = None, analysis_result_u = None\<rparr>))
     else Inr (Whole state))"

subsection \<open>The states that the controller reaches\<close>

text \<open>
  From the initial state of the main loop, a turn stores the user's input in the
  state and runs a node on it; the output of the node is merged into the state. The
  nodes are \<open>process_input\<close>, \<open>process_input_enhanced\<close> and \<open>analyze_business\<close>, with
  any replies of the language model.
\<close>

inductive reachable :: "state \<Rightarrow> bool" where
  initial: "reachable initial_chat_state"
| input:
    "reachable s \<Longrightarrow> process_input (s\<lparr>user_input := u\<rparr>) = Inr out
       \<Longrightarrow> reachable (apply_output (s\<lparr>user_input := u\<rparr>) out)"
| input_enhanced:
    "reachable s \<Longrightarrow> process_input_enhanced reply (s\<lparr>user_input := u\<rparr>) = Inr out
       \<Longrightarrow> reachable (apply_output (s\<lparr>user_input := u\<rparr>) out)"
| analysis:
    "reachable s \<Longrightarrow> analyze_business analysis_reply json_reply json_loads json_dumps s = Inr out
       \<Longrightarrow> reachable (apply_output s out)"

text \<open>
  What \<open>analyze_business\<close> needs of the selected date: it is a key of the data, and
  so is the day before it.
\<close>

definition valid_selection :: "string \<Rightarrow> bool" where
  "valid_selection d \<longleftrightarrow>
     has_key BUSINESS_DATA d \<and> (\<exists>p. previous_day d = Inr p \<and> has_key BUSINESS_DATA p)"

section \<open>Properties of the pipeline of main.py\<close>

subsection \<open>Arithmetic of Python numbers\<close>

lemma val_py_sub: "val (py_sub a b) = val a - val b"
  by (cases a; cases b) simp_all

lemma val_py_mul: "val (py_mul a b) = val a * val b"
  by (cases a; cases b) simp_all

lemma val_py_abs: "val (py_abs a) = \<bar>val a\<bar>"
  by (cases a) simp_all

lemma pct_eq:
  "pct a b c = (if val c = 0 then Inl ZeroDivisionError
                else Inr (PFloat ((val a - val b) / val c * 100)))"
  by (simp add: pct_def and_then_def py_truediv_def val_py_sub)

subsection \<open>When processing_node returns, and what\<close>

lemma processing_node_returns_iff:
  "(\<exists>s'. processing_node s = Inr s') \<longleftrightarrow>
     val (revenue (yesterday_data s)) \<noteq> 0 \<and> val (cost (yesterday_data s)) \<noteq> 0
       \<and> customers (yesterday_data s) \<noteq> 0"
  by (auto simp add: processing_node_def Let_def pct_eq and_then_def py_truediv_def
        val_py_sub val_py_abs)

lemma processing_node_error: "processing_node s = Inl e \<Longrightarrow> e = ZeroDivisionError"
  by (auto simp add: processing_node_def Let_def pct_eq and_then_def py_truediv_def
        val_py_sub val_py_abs split: if_splits)

lemma processing_node_eq:
  assumes "val (revenue (yesterday_data s)) \<noteq> 0" "val (cost (yesterday_data s)) \<noteq> 0"
    "customers (yesterday_data s) \<noteq> 0"
  shows "processing_node s = Inr (s\<lparr>
     metrics := \<lparr>
       today_profit = py_sub (revenue (today_data s)) (cost (today_data s)),
       yesterday_profit = py_sub (revenue (yesterday_data s)) (cost (yesterday_data s)),
       today_cac = (if 0 < customers (today_data s)
         then PFloat (round2 (val (marketing_cost (today_data s)) / of_int (customers (today_data s))))
         else PInt 0),
       yesterday_cac = (if 0 < customers (yesterday_data s)
         then PFloat (round2 (val (marketing_cost (yesterday_data s)) / of_int (customers (yesterday_data s))))
         else PInt 0),
       revenue_change = PFloat (round2 ((val (revenue (today_data s)) - val (revenue (yesterday_data s)))
          / val (revenue (yesterday_data s)) * 100)),
       cost_change = PFloat (round2 ((val (cost (today_data s)) - val (cost (yesterday_data s)))
          / val (cost (yesterday_data s)) * 100)),
       profit_change = (let tp = val (revenue (today_data s)) - val (cost (today_data s));
                            yp = val (revenue (yesterday_data s)) - val (cost (yesterday_data s))
          in if yp \<noteq> 0 then PFloat (round2 ((tp - yp) / \<bar>yp\<bar> * 100)) else PInt 0),
       cac_change = (let tc = (if 0 < customers (today_data s)
                               then val (marketing_cost (today_data s)) / of_int (customers (today_data s)) else 0);
                         yc = (if 0 < customers (yesterday_data s)
                               then val (marketing_cost (yesterday_data s)) / of_int (customers (yesterday_data s)) else 0)
          in if 0 < yc then PFloat (round2 ((tc - yc) / yc * 100)) else PInt 0),
       customer_growth = PFloat (round2 ((of_int (customers (today_data s)) - of_int (customers (yesterday_data s)))
          / of_int (customers (yesterday_data s)) * 100)),
       today_roi = (if 0 < val (cost (today_data s))
          then PFloat (round2 ((val (revenue (today_data s)) - val (cost (today_data s))) / val (cost (today_data s)) * 100))
          else PInt 0),
       yesterday_roi = (if 0 < val (cost (yesterday_data s))
          then PFloat (round2 ((val (revenue (yesterday_data s)) - val (cost (yesterday_data s))) / val (cost (yesterday_data s)) * 100))
          else PInt 0)\<rparr>,
     profit_status := (if 0 < val (revenue (today_data s)) - val (cost (today_data s))
                       then ''positive'' else ''negative'')\<rparr>)"
  using assms
  by (simp add: processing_node_def Let_def pct_eq and_then_def py_truediv_def val_py_sub
        val_py_abs val_py_mul)

text \<open>
  Claim C1. The Metrics Engine is said to return a Metrics value for every pair of
  records with non-negative fields, \<open>revenue_change\<close>, \<open>cost_change\<close> and
  \<open>customer_growth\<close> being 0 when yesterday's revenue, cost or customer count is 0.
  The code guards \<open>profit_change\<close>, \<open>cac_change\<close>, the two CAC and the two ROI, and
  divides by yesterday's revenue, cost and customer count without a guard: with the
  sample records and yesterday's revenue set to 0, \<open>processing_node\<close> raises
  \<open>ZeroDivisionError\<close> and returns no Metrics; so it does with yesterday's cost or
  customer count set to 0.
\<close>

theorem processing_node_zero_revenue_raises:
  "processing_node (initial_state\<lparr>today_data := sample_today,
       yesterday_data := sample_yesterday\<lparr>revenue := PInt 0\<rparr>\<rparr>) = Inl ZeroDivisionError
   \<and> processing_node (initial_state\<lparr>today_data := sample_today,
       yesterday_data := sample_yesterday\<lparr>cost := PInt 0\<rparr>\<rparr>) = Inl ZeroDivisionError
   \<and> processing_node (initial_state\<lparr>today_data := sample_today,
       yesterday_data := sample_yesterday\<lparr>customers := 0\<rparr>\<rparr>) = Inl ZeroDivisionError"
  by code_simp

text \<open>
  Claim C2. The report's \<open>action_priority\<close> is "high" exactly when today's profit is
  at most 0, whatever the alerts are; it is "medium" exactly when the profit is
  positive and there is an alert, and "low" exactly when the profit is positive and
  there is none.
\<close>

theorem output_node_action_priority:
  "(action_priority (final_report (output_node str_num s)) = ''high''
      \<longleftrightarrow> val (today_profit (metrics s)) \<le> 0)
   \<and> (action_priority (final_report (output_node str_num s)) = ''medium''
      \<longleftrightarrow> 0 < val (today_profit (metrics s)) \<and> alerts s \<noteq> [])
   \<and> (action_priority (final_report (output_node str_num s)) = ''low''
      \<longleftrightarrow> 0 < val (today_profit (metrics s)) \<and> alerts s = [])"
  by (auto simp add: output_node_def Let_def)

text \<open>
  Claim C3, as stated: for every pair of records the engine computes
  \<open>cac = marketing_cost / customers\<close> when there are customers. The stored
  \<open>today_cac\<close> of the sample records is 13.33, which is not 2000 / 150: the engine
  stores its results rounded to two decimals.
\<close>

theorem processing_node_metrics_counterexample:
  "map_sum id (today_cac \<circ> metrics) (processing_node (input_node initial_state))
     = Inr (PFloat (1333 / 100))
   \<and> val (PFloat (1333 / 100))
       \<noteq> val (marketing_cost sample_today) / of_int (customers sample_today)"
  by code_simp

text \<open>
  Claim C3, amended. When yesterday's revenue, cost and customer count are not 0,
  \<open>processing_node\<close> returns, and in the state it returns: each profit is revenue
  minus cost; each CAC is marketing cost over customers rounded to two decimals
  when the day has customers, and the int 0 otherwise; each ROI is profit over cost
  times 100 rounded to two decimals when the day's cost is positive, and the int 0
  otherwise; \<open>profit_status\<close> is "positive" exactly when today's profit is positive,
  and "negative" otherwise (so also when the profit is 0).
\<close>

theorem processing_node_metrics:
  assumes "val (revenue (yesterday_data s)) \<noteq> 0"
    and "val (cost (yesterday_data s)) \<noteq> 0"
    and "customers (yesterday_data s) \<noteq> 0"
  shows "\<exists>s'. processing_node s = Inr s'
     \<and> today_profit (metrics s') = py_sub (revenue (today_data s)) (cost (today_data s))
     \<and> yesterday_profit (metrics s')
         = py_sub (revenue (yesterday_data s)) (cost (yesterday_data s))
     \<and> today_cac (metrics s') =
         (if 0 < customers (today_data s)
          then PFloat (round2 (val (marketing_cost (today_data s))
                 / of_int (customers (today_data s))))
          else PInt 0)
     \<and> yesterday_cac (metrics s') =
         (if 0 < customers (yesterday_data s)
          then PFloat (round2 (val (marketing_cost (yesterday_data s))
                 / of_int (customers (yesterday_data s))))
          else PInt 0)
     \<and> today_roi (metrics s') =
         (if 0 < val (cost (today_data s))
          then PFloat (round2 (val (today_profit (metrics s')) / val (cost (today_data s)) * 100))
          else PInt 0)
     \<and> yesterday_roi (metrics s') =
         (if 0 < val (cost (yesterday_data s))
          then PFloat (round2 (val (yesterday_profit (metrics s'))
                 / val (cost (yesterday_data s)) * 100))
          else PInt 0)
     \<and> (profit_status s' = ''positive'' \<longleftrightarrow> 0 < val (today_profit (metrics s')))
     \<and> (profit_status s' = ''negative'' \<longleftrightarrow> val (today_profit (metrics s')) \<le> 0)"
  by (simp add: processing_node_eq [OF assms] val_py_sub)

theorem processing_node_metrics_witness:
  "val (revenue (yesterday_data (input_node initial_state))) \<noteq> 0
   \<and> val (cost (yesterday_data (input_node initial_state))) \<noteq> 0
   \<and> customers (yesterday_data (input_node initial_state)) \<noteq> 0
   \<and> (\<exists>s'. processing_node (input_node initial_state) = Inr s'
        \<and> today_profit (metrics s') = PInt 4000
        \<and> today_cac (metrics s') = PFloat (1333 / 100)
        \<and> profit_status s' = ''positive'')"
proof -
  let ?s = "input_node initial_state"
  have h1: "val (revenue (yesterday_data ?s)) \<noteq> 0" by code_simp
  have h2: "val (cost (yesterday_data ?s)) \<noteq> 0" by code_simp
  have h3: "customers (yesterday_data ?s) \<noteq> 0" by code_simp
  from processing_node_metrics [OF h1 h2 h3] obtain s' where
    r: "processing_node ?s = Inr s'" and
    p: "today_profit (metrics s') = py_sub (revenue (today_data ?s)) (cost (today_data ?s))" and
    c: "today_cac (metrics s') =
         (if 0 < customers (today_data ?s)
          then PFloat (round2 (val (marketing_cost (today_data ?s))
                 / of_int (customers (today_data ?s))))
          else PInt 0)" and
    st: "profit_status s' = ''positive'' \<longleftrightarrow> 0 < val (today_profit (metrics s'))"
    by blast
  have e1: "py_sub (revenue (today_data ?s)) (cost (today_data ?s)) = PInt 4000"
    by code_simp
  have e2: "(if 0 < customers (today_data ?s)
          then PFloat (round2 (val (marketing_cost (today_data ?s))
                 / of_int (customers (today_data ?s))))
          else PInt 0) = PFloat (1333 / 100)"
    by code_simp
  have "profit_status s' = ''positive''" using st p e1 by simp
  then show ?thesis using h1 h2 h3 r p c e1 e2 by auto
qed

subsection \<open>The alerts\<close>

lemma alert_texts_distinct:
  "distinct [alert_critical, alert_cac_growth, alert_cac_level, alert_cost_growth,
     alert_revenue_drop, alert_low_roi]"
  by (simp add: alert_critical_def alert_cac_growth_def alert_cac_level_def
      alert_cost_growth_def alert_revenue_drop_def alert_low_roi_def siren_def warning_sign_def)

lemma analysis_node_alerts_eq:
  "alerts (analysis_node s) =
      (if val (today_profit (metrics s)) \<le> 0 then [alert_critical] else [])
      @ (if 20 < val (cac_change (metrics s)) then [alert_cac_growth]
         else if 50 < val (today_cac (metrics s)) then [alert_cac_level] else [])
      @ (if val (revenue_change (metrics s)) < val (cost_change (metrics s))
            \<and> 0 < val (revenue_change (metrics s)) then [alert_cost_growth] else [])
      @ (if val (revenue_change (metrics s)) < - 10 then [alert_revenue_drop] else [])
      @ (if val (today_roi (metrics s)) < 10 then [alert_low_roi] else [])"
  by (simp add: analysis_node_def Let_def)

lemma analysis_node_at_most_four: "length (alerts (analysis_node s)) \<le> 4"
  by (simp add: analysis_node_alerts_eq)

text \<open>
  Claim C4. The alerts that \<open>analysis_node\<close> writes are the concatenation, in this
  order, of: the critical-loss alert if today's profit is at most 0; the CAC-growth
  alert if \<open>cac_change\<close> exceeds 20, or else the CAC-level alert if \<open>today_cac\<close>
  exceeds 50; the cost alert if \<open>cost_change\<close> exceeds \<open>revenue_change\<close> and
  \<open>revenue_change\<close> is positive; the revenue-drop alert if \<open>revenue_change\<close> is below
  -10; the low-ROI alert if \<open>today_roi\<close> is below 10. The list has at most 5 elements,
  never holds both CAC alerts, and depends on the metrics only: two states with the
  same metrics get the same list.
\<close>

theorem analysis_node_alerts:
  "alerts (analysis_node s) =
      (if val (today_profit (metrics s)) \<le> 0 then [alert_critical] else [])
      @ (if 20 < val (cac_change (metrics s)) then [alert_cac_growth]
         else if 50 < val (today_cac (metrics s)) then [alert_cac_level] else [])
      @ (if val (revenue_change (metrics s)) < val (cost_change (metrics s))
            \<and> 0 < val (revenue_change (metrics s)) then [alert_cost_growth] else [])
      @ (if val (revenue_change (metrics s)) < - 10 then [alert_revenue_drop] else [])
      @ (if val (today_roi (metrics s)) < 10 then [alert_low_roi] else [])
   \<and> length (alerts (analysis_node s)) \<le> 5
   \<and> \<not> (alert_cac_growth \<in> set (alerts (analysis_node s))
          \<and> alert_cac_level \<in> set (alerts (analysis_node s)))
   \<and> (metrics s' = metrics s \<longrightarrow> alerts (analysis_node s') = alerts (analysis_node s))"
proof -
  have "\<not> (alert_cac_growth \<in> set (alerts (analysis_node s))
          \<and> alert_cac_level \<in> set (alerts (analysis_node s)))"
    using alert_texts_distinct by (auto simp add: analysis_node_alerts_eq split: if_splits)
  moreover have "length (alerts (analysis_node s)) \<le> 5"
    using analysis_node_at_most_four [of s] by linarith
  moreover have "metrics s' = metrics s \<longrightarrow> alerts (analysis_node s') = alerts (analysis_node s)"
    by (simp add: analysis_node_alerts_eq)
  ultimately show ?thesis
    using analysis_node_alerts_eq [of s] by blast
qed

theorem analysis_node_alerts_witness:
  "metrics (initial_state\<lparr>
       metrics := (metrics initial_state)\<lparr>today_profit := PInt (- 2000),
         cac_change := PFloat 25, today_cac := PFloat 10,
         revenue_change := PFloat (- (4737 / 100)), cost_change := PFloat (129 / 10),
         today_roi := PFloat (- (2857 / 100))\<rparr>,
       alerts := [''stale'']\<rparr>)
     = metrics (initial_state\<lparr>
       metrics := (metrics initial_state)\<lparr>today_profit := PInt (- 2000),
         cac_change := PFloat 25, today_cac := PFloat 10,
         revenue_change := PFloat (- (4737 / 100)), cost_change := PFloat (129 / 10),
         today_roi := PFloat (- (2857 / 100))\<rparr>\<rparr>)
   \<and> alerts (analysis_node (initial_state\<lparr>
       metrics := (metrics initial_state)\<lparr>today_profit := PInt (- 2000),
         cac_change := PFloat 25, today_cac := PFloat 10,
         revenue_change := PFloat (- (4737 / 100)), cost_change := PFloat (129 / 10),
         today_roi := PFloat (- (2857 / 100))\<rparr>,
       alerts := [''stale'']\<rparr>))
     = [alert_critical, alert_cac_growth, alert_revenue_drop, alert_low_roi]"
proof -
  let ?m = "(metrics initial_state)\<lparr>today_profit := PInt (- 2000),
         cac_change := PFloat 25, today_cac := PFloat 10,
         revenue_change := PFloat (- (4737 / 100)), cost_change := PFloat (129 / 10),
         today_roi := PFloat (- (2857 / 100))\<rparr>"
  let ?s = "initial_state\<lparr>metrics := ?m\<rparr>"
  let ?s' = "initial_state\<lparr>metrics := ?m, alerts := [''stale'']\<rparr>"
  have h: "metrics ?s' = metrics ?s" by simp
  have "alerts (analysis_node ?s') = alerts (analysis_node ?s)"
    using analysis_node_alerts [of ?s ?s'] h by blast
  moreover have "alerts (analysis_node ?s)
      = [alert_critical, alert_cac_growth, alert_revenue_drop, alert_low_roi]"
    using analysis_node_alerts [of ?s ?s'] by simp
  ultimately show ?thesis using h by simp
qed

subsection \<open>The report\<close>

text \<open>
  Claim C8. In the report that \<open>output_node\<close> assembles, each of the four percent
  fields is the string form of the metric followed by "%"; the metrics of the state
  are the same after the node as before, and so is every other field of the state:
  the node writes \<open>final_report\<close> only.
\<close>

theorem output_node_presentational:
  "revenue_change_k (key_metrics (final_report (output_node str_num s)))
      = str_num (revenue_change (metrics s)) @ ''%''
   \<and> cost_change_k (key_metrics (final_report (output_node str_num s)))
      = str_num (cost_change (metrics s)) @ ''%''
   \<and> profit_change_k (key_metrics (final_report (output_node str_num s)))
      = str_num (profit_change (metrics s)) @ ''%''
   \<and> customer_growth_k (key_metrics (final_report (output_node str_num s)))
      = str_num (customer_growth (metrics s)) @ ''%''
   \<and> metrics (output_node str_num s) = metrics s
   \<and> output_node str_num s = s\<lparr>final_report := final_report (output_node str_num s)\<rparr>"
  by (simp add: output_node_def Let_def)

section \<open>Properties of the conversation controller\<close>

subsection \<open>Stripping and lower-casing\<close>

lemma upper_cases:
  assumes "CHR ''A'' \<le> c" "c \<le> CHR ''Z''"
  shows "c \<in> set ''ABCDEFGHIJKLMNOPQRSTUVWXYZ''"
proof -
  have n: "65 \<le> (of_char c :: nat)" "(of_char c :: nat) \<le> 90"
    using assms by (simp_all add: less_eq_char_def)
  then have "(of_char c :: nat) \<in> set [65 ..< 91]" by (simp only: set_upt atLeastLessThan_iff) arith
  then have "char_of (of_char c :: nat) \<in> char_of ` set [65 ..< (91::nat)]" by (rule imageI)
  then have "c \<in> set (map char_of [65 ..< (91::nat)])" by simp
  also have "map char_of [65 ..< (91::nat)] = ''ABCDEFGHIJKLMNOPQRSTUVWXYZ''"
    by code_simp
  finally show ?thesis .
qed

lemma upper_not_space:
  "\<forall>c \<in> set ''ABCDEFGHIJKLMNOPQRSTUVWXYZ''. \<not> is_space c \<and> \<not> is_space (lower_char c)"
  by code_simp

lemma is_space_lower_char: "is_space (lower_char c) \<longleftrightarrow> is_space c"
proof (cases "CHR ''A'' \<le> c \<and> c \<le> CHR ''Z''")
  case False
  then show ?thesis by (auto simp add: lower_char_def)
next
  case True
  then have "c \<in> set ''ABCDEFGHIJKLMNOPQRSTUVWXYZ''" using upper_cases by blast
  then show ?thesis using upper_not_space by blast
qed

lemma dropWhile_lower:
  "dropWhile is_space (map lower_char s) = map lower_char (dropWhile is_space s)"
  by (induction s) (simp_all add: is_space_lower_char)

lemma strip_lower: "strip (lower s) = lower (strip s)"
  by (simp add: strip_def lower_def rev_map dropWhile_lower)

lemma strip_tokens: "\<forall>t \<in> set affirmative \<union> set negative. strip t = t"
  by code_simp

lemma token_strip:
  assumes "lower u \<in> set affirmative \<union> set negative"
  shows "lower (strip u) = lower u"
  using assms strip_tokens strip_lower by metis

subsection \<open>Dictionary access\<close>

lemma has_key_iff: "has_key d k \<longleftrightarrow> map_of d k \<noteq> None"
  by (simp add: has_key_def map_of_eq_None_iff)

lemma getitem_has_key: "has_key d k \<Longrightarrow> \<exists>v. getitem d k = Inr v"
  by (auto simp add: has_key_iff getitem_def)

subsection \<open>Inputs that the controller does not classify\<close>

text \<open>
  Claim C5, as stated: an input that is not in the key set of the data leaves the
  controller at \<open>date_selection\<close> with \<open>selected_date\<close> as it was. The input
  \<open>" 2024-01-02"\<close>, with a space in front, is not a key of \<open>BUSINESS_DATA\<close>, and the
  controller selects the date 2024-01-02 and moves on to \<open>confirm_analysis\<close>:
  \<open>process_input\<close> strips the input before it looks it up.
\<close>

theorem process_input_unclassified_counterexample:
  "\<not> has_key BUSINESS_DATA '' 2024-01-02''
   \<and> process_input (initial_chat_state\<lparr>stage := ''date_selection'', user_input := '' 2024-01-02''\<rparr>)
     = Inr (Update \<lparr>messages_u = [msg_date_selected ''2024-01-02''],
              stage_u = Some ''confirm_analysis'', selected_date_u = Some ''2024-01-02'',
              analysis_result_u = None\<rparr>)"
  by code_simp

text \<open>
  Claim C5, amended. An input is classified after white space is stripped from its
  ends. When the stripped input is not a key of the data at stage \<open>date_selection\<close>,
  or, lower-cased, is in neither token list at stage \<open>confirm_analysis\<close> or
  \<open>complete\<close>, \<open>process_input\<close> returns an update that keeps the stage, has no
  \<open>selected_date\<close>, and holds exactly one message, the invalid-date text or the
  re-prompt of the stage; merged into the state it changes nothing but \<open>messages\<close>.
\<close>

theorem process_input_unclassified:
  assumes "(stage s = ''date_selection'' \<and> \<not> has_key BUSINESS_DATA (strip (user_input s)))
     \<or> (stage s = ''confirm_analysis'' \<or> stage s = ''complete'')
        \<and> lower (strip (user_input s)) \<notin> set affirmative
        \<and> lower (strip (user_input s)) \<notin> set negative"
  shows "\<exists>m. process_input s = Inr (Update \<lparr>messages_u = [m], stage_u = Some (stage s),
                 selected_date_u = None, analysis_result_u = None\<rparr>)
     \<and> m = (if stage s = ''date_selection'' then msg_invalid_date
            else if stage s = ''confirm_analysis'' then msg_confirm_reprompt
            else msg_complete_reprompt)
     \<and> apply_output s (Update \<lparr>messages_u = [m], stage_u = Some (stage s),
                 selected_date_u = None, analysis_result_u = None\<rparr>)
        = s\<lparr>messages := messages s @ [m]\<rparr>"
  using assms by (auto simp add: process_input_def Let_def)

theorem process_input_unclassified_witness:
  "stage (initial_chat_state\<lparr>stage := ''date_selection'', user_input := ''2024-13-45''\<rparr>)
     = ''date_selection''
   \<and> \<not> has_key BUSINESS_DATA
        (strip (user_input
          (initial_chat_state\<lparr>stage := ''date_selection'', user_input := ''2024-13-45''\<rparr>)))
   \<and> process_input (initial_chat_state\<lparr>stage := ''date_selection'', user_input := ''2024-13-45''\<rparr>)
     = Inr (Update \<lparr>messages_u = [msg_invalid_date], stage_u = Some ''date_selection'',
              selected_date_u = None, analysis_result_u = None\<rparr>)"
proof -
  let ?s = "initial_chat_state\<lparr>stage := ''date_selection'', user_input := ''2024-13-45''\<rparr>"
  have h: "stage ?s = ''date_selection'' \<and> \<not> has_key BUSINESS_DATA (strip (user_input ?s))"
    by code_simp
  then have "(stage ?s = ''date_selection'' \<and> \<not> has_key BUSINESS_DATA (strip (user_input ?s)))
     \<or> (stage ?s = ''confirm_analysis'' \<or> stage ?s = ''complete'')
        \<and> lower (strip (user_input ?s)) \<notin> set affirmative
        \<and> lower (strip (user_input ?s)) \<notin> set negative"
    by blast
  from process_input_unclassified [OF this] h show ?thesis by auto
qed

subsection \<open>The answers at confirm_analysis\<close>

text \<open>
  Claim C6. At stage \<open>confirm_analysis\<close>, an input that is an affirmative token in
  any case (as it is, or once stripped) makes \<open>process_input\<close> return the stage
  \<open>analysis\<close> and no \<open>selected_date\<close>, so the selected date stays; an input that is
  a negative token makes it return the stage \<open>date_selection\<close>, the empty
  \<open>selected_date\<close> and one message that starts with the data table.
\<close>

theorem process_input_confirm:
  assumes "stage s = ''confirm_analysis''"
  shows "(lower (user_input s) \<in> set affirmative \<or> lower (strip (user_input s)) \<in> set affirmative
          \<longrightarrow> process_input s = Inr (Update \<lparr>messages_u = [msg_starting],
                  stage_u = Some ''analysis'', selected_date_u = None, analysis_result_u = None\<rparr>)
            \<and> stage (apply_output s (projr (process_input s))) = ''analysis''
            \<and> selected_date (apply_output s (projr (process_input s))) = selected_date s)
     \<and> (lower (user_input s) \<in> set negative \<or> lower (strip (user_input s)) \<in> set negative
          \<longrightarrow> process_input s = Inr (Update \<lparr>messages_u = [msg_new_date],
                  stage_u = Some ''date_selection'', selected_date_u = Some [],
                  analysis_result_u = None\<rparr>)
            \<and> take (length get_data_table) msg_new_date = get_data_table
            \<and> stage (apply_output s (projr (process_input s))) = ''date_selection''
            \<and> selected_date (apply_output s (projr (process_input s))) = [])"
proof -
  have neg: "lower (strip (user_input s)) \<in> set negative
      \<Longrightarrow> lower (strip (user_input s)) \<notin> set affirmative"
    by (auto simp add: affirmative_def negative_def)
  have a: "lower (user_input s) \<in> set affirmative
      \<Longrightarrow> lower (strip (user_input s)) \<in> set affirmative"
    using token_strip [of "user_input s"] by simp
  have n: "lower (user_input s) \<in> set negative
      \<Longrightarrow> lower (strip (user_input s)) \<in> set negative"
    using token_strip [of "user_input s"] by simp
  have t: "take (length get_data_table) msg_new_date = get_data_table"
    by (simp add: msg_new_date_def)
  show ?thesis
    using assms a n neg by (auto simp add: process_input_def Let_def t)
qed

theorem process_input_confirm_witness:
  "stage (initial_chat_state\<lparr>stage := ''confirm_analysis'', selected_date := ''2024-01-08'',
       user_input := ''YES''\<rparr>) = ''confirm_analysis''
   \<and> lower (user_input (initial_chat_state\<lparr>stage := ''confirm_analysis'',
       selected_date := ''2024-01-08'', user_input := ''YES''\<rparr>)) \<in> set affirmative
   \<and> stage (apply_output
        (initial_chat_state\<lparr>stage := ''confirm_analysis'', selected_date := ''2024-01-08'',
           user_input := ''YES''\<rparr>)
        (projr (process_input (initial_chat_state\<lparr>stage := ''confirm_analysis'',
           selected_date := ''2024-01-08'', user_input := ''YES''\<rparr>)))) = ''analysis''
   \<and> selected_date (apply_output
        (initial_chat_state\<lparr>stage := ''confirm_analysis'', selected_date := ''2024-01-08'',
           user_input := ''YES''\<rparr>)
        (projr (process_input (initial_chat_state\<lparr>stage := ''confirm_analysis'',
           selected_date := ''2024-01-08'', user_input := ''YES''\<rparr>)))) = ''2024-01-08''
   \<and> stage (initial_chat_state\<lparr>stage := ''confirm_analysis'', selected_date := ''2024-01-08'',
       user_input := ''Nope''\<rparr>) = ''confirm_analysis''
   \<and> lower (user_input (initial_chat_state\<lparr>stage := ''confirm_analysis'',
       selected_date := ''2024-01-08'', user_input := ''Nope''\<rparr>)) \<in> set negative
   \<and> stage (apply_output
        (initial_chat_state\<lparr>stage := ''confirm_analysis'', selected_date := ''2024-01-08'',
           user_input := ''Nope''\<rparr>)
        (projr (process_input (initial_chat_state\<lparr>stage := ''confirm_analysis'',
           selected_date := ''2024-01-08'', user_input := ''Nope''\<rparr>)))) = ''date_selection''
   \<and> selected_date (apply_output
        (initial_chat_state\<lparr>stage := ''confirm_analysis'', selected_date := ''2024-01-08'',
           user_input := ''Nope''\<rparr>)
        (projr (process_input (initial_chat_state\<lparr>stage := ''confirm_analysis'',
           selected_date := ''2024-01-08'', user_input := ''Nope''\<rparr>)))) = []"
proof -
  let ?y = "initial_chat_state\<lparr>stage := ''confirm_analysis'', selected_date := ''2024-01-08'',
       user_input := ''YES''\<rparr>"
  let ?n = "initial_chat_state\<lparr>stage := ''confirm_analysis'', selected_date := ''2024-01-08'',
       user_input := ''Nope''\<rparr>"
  have sy: "stage ?y = ''confirm_analysis''" by simp
  have sn: "stage ?n = ''confirm_analysis''" by simp
  have ly: "lower (user_input ?y) \<in> set affirmative" by code_simp
  have ln: "lower (user_input ?n) \<in> set negative" by code_simp
  have dy: "selected_date ?y = ''2024-01-08''" by simp
  from process_input_confirm [OF sy] ly
  have y: "stage (apply_output ?y (projr (process_input ?y))) = ''analysis''
      \<and> selected_date (apply_output ?y (projr (process_input ?y))) = selected_date ?y"
    by blast
  from process_input_confirm [OF sn] ln
  have n: "stage (apply_output ?n (projr (process_input ?n))) = ''date_selection''
      \<and> selected_date (apply_output ?n (projr (process_input ?n))) = []"
    by blast
  from y dy have y': "stage (apply_output ?y (projr (process_input ?y))) = ''analysis''
      \<and> selected_date (apply_output ?y (projr (process_input ?y))) = ''2024-01-08''"
    by (simp only:)
  show ?thesis
    using sy sn ly ln y' n by blast
qed

subsection \<open>A reply that is not JSON\<close>

text \<open>
  Claim C7. At stage \<open>analysis\<close>, with the date parse and the two lookups done and
  the first call of the language model answered, a reply of the second call that
  \<open>json.loads\<close> rejects with \<open>JSONDecodeError\<close> does not make \<open>analyze_business\<close>
  raise. It returns the stage \<open>complete\<close>, one message, and as \<open>analysis_result\<close> the
  fixed structure built from the record of the selected day: the profit revenue
  minus cost, its status, and the parse failure as the one entry of \<open>alerts\<close>.
\<close>

theorem analyze_business_parse_failure:
  assumes "stage s = ''analysis''"
    and "previous_day (selected_date s) = Inr prev_date"
    and "getitem BUSINESS_DATA (selected_date s) = Inr current"
    and "getitem BUSINESS_DATA prev_date = Inr previous"
    and "json_loads json_content = Inl JSONDecodeError"
  shows "\<exists>m. analyze_business (Content analysis_content) (Content json_content)
            json_loads json_dumps s
     = Inr (Update \<lparr>messages_u = [m], stage_u = Some ''complete'', selected_date_u = None,
         analysis_result_u = Some (JObj [
           (''profit_loss_status'',
              JStr (if 0 < revenue_d current - cost_d current then ''positive'' else ''negative'')),
           (''current_profit'', JNum (PInt (revenue_d current - cost_d current))),
           (''alerts'', JArr [JStr ''Unable to parse LLM JSON response'']),
           (''recommendations'', JArr [JStr ''Review analysis manually'']),
           (''key_metrics'', JObj [(''error'', JStr ''JSON parsing failed'')])])\<rparr>)"
  using assms
  by (simp add: analyze_business_def and_then_def parse_fallback_def Let_def)

theorem analyze_business_parse_failure_witness:
  "stage (initial_chat_state\<lparr>stage := ''analysis'', selected_date := ''2024-01-06''\<rparr>)
     = ''analysis''
   \<and> previous_day
        (selected_date (initial_chat_state\<lparr>stage := ''analysis'', selected_date := ''2024-01-06''\<rparr>))
     = Inr ''2024-01-05''
   \<and> getitem BUSINESS_DATA
        (selected_date (initial_chat_state\<lparr>stage := ''analysis'', selected_date := ''2024-01-06''\<rparr>))
     = Inr \<lparr>revenue_d = 5000, cost_d = 7000, customers_d = 50\<rparr>
   \<and> getitem BUSINESS_DATA ''2024-01-05''
     = Inr \<lparr>revenue_d = 9500, cost_d = 6200, customers_d = 95\<rparr>
   \<and> (\<exists>m. analyze_business (Content ''Analysis.'') (Content ''not JSON'')
            (\<lambda>text. Inl JSONDecodeError) (\<lambda>value. [])
            (initial_chat_state\<lparr>stage := ''analysis'', selected_date := ''2024-01-06''\<rparr>)
         = Inr (Update \<lparr>messages_u = [m], stage_u = Some ''complete'', selected_date_u = None,
             analysis_result_u = Some (JObj [
               (''profit_loss_status'', JStr ''negative''),
               (''current_profit'', JNum (PInt (- 2000))),
               (''alerts'', JArr [JStr ''Unable to parse LLM JSON response'']),
               (''recommendations'', JArr [JStr ''Review analysis manually'']),
               (''key_metrics'', JObj [(''error'', JStr ''JSON parsing failed'')])])\<rparr>))"
proof -
  let ?s = "initial_chat_state\<lparr>stage := ''analysis'', selected_date := ''2024-01-06''\<rparr>"
  let ?cur = "\<lparr>revenue_d = 5000, cost_d = 7000, customers_d = 50\<rparr>"
  let ?prev = "\<lparr>revenue_d = 9500, cost_d = 6200, customers_d = 95\<rparr>"
  have h1: "stage ?s = ''analysis''" by simp
  have h2: "previous_day (selected_date ?s) = Inr ''2024-01-05''" by code_simp
  have h3: "getitem BUSINESS_DATA (selected_date ?s) = Inr ?cur" by code_simp
  have h4: "getitem BUSINESS_DATA ''2024-01-05'' = Inr ?prev" by code_simp
  have h5: "(\<lambda>text. Inl JSONDecodeError :: py_error + json) ''not JSON'' = Inl JSONDecodeError"
    by simp
  from analyze_business_parse_failure [OF h1 h2 h3 h4 h5,
    where analysis_content = "''Analysis.''" and json_dumps = "\<lambda>value. []"]
  show ?thesis using h1 h2 h3 h4 by simp
qed

subsection \<open>The selected date in the states that the controller reaches\<close>

lemma business_data_nonzero:
  "getitem BUSINESS_DATA k = Inr v \<Longrightarrow> revenue_d v \<noteq> 0 \<and> cost_d v \<noteq> 0"
  by (auto simp add: getitem_def BUSINESS_DATA_def split: if_splits)

lemma llm_fallback_returns:
  assumes "revenue_d previous \<noteq> 0" "cost_d previous \<noteq> 0"
  shows "\<exists>r. llm_fallback d current previous = Inr r"
  using assms by (simp add: llm_fallback_def Let_def pct_eq and_then_def)

lemma process_input_invariant:
  assumes "process_input s = Inr out"
    and "stage s = ''confirm_analysis'' \<or> stage s = ''analysis'' \<longrightarrow> valid_selection (selected_date s)"
    and "stage (apply_output s out) = ''confirm_analysis'' \<or> stage (apply_output s out) = ''analysis''"
  shows "valid_selection (selected_date (apply_output s out))"
  using assms
  by (auto simp add: process_input_def Let_def valid_selection_def and_then_def
      split: if_splits sum.splits)

lemma process_input_enhanced_invariant:
  assumes "process_input_enhanced reply s = Inr out"
    and "stage s = ''confirm_analysis'' \<or> stage s = ''analysis'' \<longrightarrow> valid_selection (selected_date s)"
    and "stage (apply_output s out) = ''confirm_analysis'' \<or> stage (apply_output s out) = ''analysis''"
  shows "valid_selection (selected_date (apply_output s out))"
  using assms
  by (auto simp add: process_input_enhanced_def Let_def valid_selection_def and_then_def
      split: if_splits sum.splits)

lemma analyze_business_invariant:
  assumes "analyze_business ar jr jl jd s = Inr out"
    and "stage s = ''confirm_analysis'' \<or> stage s = ''analysis'' \<longrightarrow> valid_selection (selected_date s)"
    and "stage (apply_output s out) = ''confirm_analysis'' \<or> stage (apply_output s out) = ''analysis''"
  shows "valid_selection (selected_date (apply_output s out))"
  using assms
  by (auto simp add: analyze_business_def Let_def and_then_def
      split: if_splits sum.splits prod.splits)

lemma reachable_invariant:
  "reachable s \<Longrightarrow>
     stage s = ''confirm_analysis'' \<or> stage s = ''analysis'' \<longrightarrow> valid_selection (selected_date s)"
proof (induction rule: reachable.induct)
  case initial
  show ?case by (simp add: initial_chat_state_def)
next
  case (input s u out)
  show ?case
    using process_input_invariant [OF input.hyps(2)] input.IH by simp
next
  case (input_enhanced s reply u out)
  show ?case
    using process_input_enhanced_invariant [OF input_enhanced.hyps(2)] input_enhanced.IH by simp
next
  case (analysis s ar jr jl jd out)
  show ?case
    using analyze_business_invariant [OF analysis.hyps(2)] analysis.IH by simp
qed

lemma analyze_business_returns:
  assumes "valid_selection (selected_date s)"
  shows "\<exists>out. analyze_business ar jr jl jd s = Inr out"
proof (cases "stage s = ''analysis''")
  case False
  then show ?thesis by (simp add: analyze_business_def)
next
  case True
  from assms obtain p where p: "previous_day (selected_date s) = Inr p"
    and kp: "has_key BUSINESS_DATA p" and kd: "has_key BUSINESS_DATA (selected_date s)"
    by (auto simp add: valid_selection_def)
  from getitem_has_key [OF kd] obtain current
    where c: "getitem BUSINESS_DATA (selected_date s) = Inr current" ..
  from getitem_has_key [OF kp] obtain previous
    where v: "getitem BUSINESS_DATA p = Inr previous" ..
  from business_data_nonzero [OF v]
  have "\<exists>r. llm_fallback (selected_date s) current previous = Inr r"
    by (intro llm_fallback_returns) simp_all
  then obtain r where r: "llm_fallback (selected_date s) current previous = Inr r" ..
  show ?thesis
    using True p c v r
    by (cases r) (auto simp add: analyze_business_def and_then_def Let_def
        split: llm_reply.splits sum.splits)
qed

text \<open>
  Claim C10. In every state that the controller reaches from the initial state, at
  stage \<open>confirm_analysis\<close> or \<open>analysis\<close> the selected date is a key of the data, it
  parses as a date, the day before it is a key of the data, and both lookups
  succeed; \<open>analyze_business\<close> returns on such a state, whatever the language model
  answers.
\<close>

theorem reachable_selected_date_valid:
  assumes "reachable s"
    and "stage s = ''confirm_analysis'' \<or> stage s = ''analysis''"
  shows "has_key BUSINESS_DATA (selected_date s)
     \<and> (\<exists>date_obj prev_obj current previous.
           strptime (selected_date s) = Inr date_obj
         \<and> minus_one_day date_obj = Inr prev_obj
         \<and> has_key BUSINESS_DATA (strftime prev_obj)
         \<and> getitem BUSINESS_DATA (selected_date s) = Inr current
         \<and> getitem BUSINESS_DATA (strftime prev_obj) = Inr previous)
     \<and> (\<exists>out. analyze_business analysis_reply json_reply json_loads json_dumps s = Inr out)"
proof -
  have v: "valid_selection (selected_date s)"
    using reachable_invariant [OF assms(1)] assms(2) by blast
  then obtain p where p: "previous_day (selected_date s) = Inr p"
    and kp: "has_key BUSINESS_DATA p" and kd: "has_key BUSINESS_DATA (selected_date s)"
    by (auto simp add: valid_selection_def)
  from p obtain date_obj prev_obj where
    "strptime (selected_date s) = Inr date_obj" "minus_one_day date_obj = Inr prev_obj"
    "p = strftime prev_obj"
    by (auto simp add: previous_day_def and_then_def split: sum.splits)
  moreover from getitem_has_key [OF kd] obtain current
    where "getitem BUSINESS_DATA (selected_date s) = Inr current" ..
  moreover from getitem_has_key [OF kp] obtain previous
    where "getitem BUSINESS_DATA p = Inr previous" ..
  ultimately show ?thesis
    using kd kp analyze_business_returns [OF v] by blast
qed

theorem reachable_selected_date_valid_witness:
  "reachable \<lparr>messages = [msg_greeting, msg_date_selected ''2024-01-08''],
      user_input = ''2024-01-08'', stage = ''confirm_analysis'',
      selected_date = ''2024-01-08'', analysis_result = JObj []\<rparr>
   \<and> has_key BUSINESS_DATA ''2024-01-08''
   \<and> has_key BUSINESS_DATA ''2024-01-07''
   \<and> previous_day ''2024-01-08'' = Inr ''2024-01-07''"
proof -
  let ?s1 = "\<lparr>messages = [msg_greeting], user_input = [], stage = ''date_selection'',
      selected_date = [], analysis_result = JObj []\<rparr>"
  let ?s2 = "\<lparr>messages = [msg_greeting, msg_date_selected ''2024-01-08''],
      user_input = ''2024-01-08'', stage = ''confirm_analysis'',
      selected_date = ''2024-01-08'', analysis_result = JObj []\<rparr>"
  have o1: "process_input (initial_chat_state\<lparr>user_input := []\<rparr>)
      = Inr (Update \<lparr>messages_u = [msg_greeting], stage_u = Some ''date_selection'',
              selected_date_u = None, analysis_result_u = None\<rparr>)"
    by (simp add: process_input_def initial_chat_state_def)
  have a1: "apply_output (initial_chat_state\<lparr>user_input := []\<rparr>)
      (Update \<lparr>messages_u = [msg_greeting], stage_u = Some ''date_selection'',
              selected_date_u = None, analysis_result_u = None\<rparr>) = ?s1"
    by (simp add: initial_chat_state_def)
  have r1: "reachable ?s1"
    using reachable.input [OF reachable.initial o1] a1 by simp
  have k: "has_key BUSINESS_DATA ''2024-01-08''" "has_key BUSINESS_DATA ''2024-01-07''"
    "previous_day ''2024-01-08'' = Inr ''2024-01-07''" "strip ''2024-01-08'' = ''2024-01-08''"
    by code_simp+
  have o2: "process_input (?s1\<lparr>user_input := ''2024-01-08''\<rparr>)
      = Inr (Update \<lparr>messages_u = [msg_date_selected ''2024-01-08''],
              stage_u = Some ''confirm_analysis'',
              selected_date_u = Some ''2024-01-08'', analysis_result_u = None\<rparr>)"
    using k by (simp add: process_input_def and_then_def Let_def)
  have a2: "apply_output (?s1\<lparr>user_input := ''2024-01-08''\<rparr>)
      (Update \<lparr>messages_u = [msg_date_selected ''2024-01-08''],
              stage_u = Some ''confirm_analysis'',
              selected_date_u = Some ''2024-01-08'', analysis_result_u = None\<rparr>) = ?s2"
    by simp
  have r2: "reachable ?s2"
    using reachable.input [OF r1 o2] a2 by simp
  have st: "stage ?s2 = ''confirm_analysis'' \<or> stage ?s2 = ''analysis''" by simp
  from reachable_selected_date_valid [OF r2 st] have "has_key BUSINESS_DATA (selected_date ?s2)"
    by blast
  then show ?thesis using r2 k by simp
qed

end
